theory Spec2Isabelle
  imports
    Complex_Main
    "HOL-Library.Char_ord"
    "HOL-Library.List_Lexorder"
    "HOL-Library.Option_ord"
begin

section \<open>The rental database: schema\<close>

text \<open>
  The server keeps all of its state in one SQLite database with five tables. A table is
  modelled as the list of its rows in scan order (ascending rowid: an insert appends).
  A column declared \<open>NOT NULL\<close> has its plain type, a nullable column is an \<open>option\<close>
  with \<open>None\<close> for \<open>NULL\<close>. \<open>INTEGER\<close> is \<open>int\<close>, \<open>TEXT\<close> is \<open>string\<close> (bytes, compared
  bytewise as SQLite's default collation does), and \<open>REAL\<close> as well as the numbers of the
  JavaScript side are exact reals: the rounding error of binary floating point and the
  64-bit limit of a rowid are outside this model.
\<close>

record property_row =
  pr_id :: int
  pr_name :: string
  pr_address :: string
  pr_type :: string
  pr_rent_amount :: real
  pr_status :: "string option"

record tenant_row =
  tn_id :: int
  tn_first_name :: string
  tn_last_name :: string
  tn_email :: string
  tn_phone :: "string option"
  tn_property_id :: "int option"

record lease_row =
  ls_id :: int
  ls_property_id :: int
  ls_tenant_id :: int
  ls_start_date :: string
  ls_end_date :: string
  ls_monthly_rent :: real
  ls_status :: "string option"

record payment_row =
  pm_id :: int
  pm_lease_id :: int
  pm_amount :: real
  pm_payment_date :: string
  pm_status :: "string option"

record maintenance_row =
  mt_id :: int
  mt_property_id :: int
  mt_description :: string
  mt_priority :: "string option"
  mt_status :: "string option"
  mt_created_at :: "string option"

text \<open>
  The database: the five tables, for each table the largest rowid ever handed out (the
  table \<open>sqlite_sequence\<close> that \<open>AUTOINCREMENT\<close> maintains), and whether the connection
  enforces the declared foreign keys. The source never sets that pragma, so the value is
  the one the storage engine was built with; it is a parameter of the model.
\<close>

record store =
  properties :: "property_row list"
  tenants :: "tenant_row list"
  leases :: "lease_row list"
  payments :: "payment_row list"
  maintenance :: "maintenance_row list"
  seq_properties :: int
  seq_tenants :: int
  seq_leases :: int
  seq_payments :: int
  seq_maintenance :: int
  foreign_keys :: bool

definition empty_store :: "bool \<Rightarrow> store" where
  "empty_store fk =
     \<lparr>properties = [], tenants = [], leases = [], payments = [], maintenance = [],
      seq_properties = 0, seq_tenants = 0, seq_leases = 0, seq_payments = 0,
      seq_maintenance = 0, foreign_keys = fk\<rparr>"

section \<open>Statements that write\<close>

text \<open>
  A failed statement raises an exception on the JavaScript side. It is a value here: a
  statement returns the error or the rowid of the new row, together with the database
  after it. A statement that fails changes nothing.
\<close>

datatype sqlite_code =
  SQLITE_CONSTRAINT_NOTNULL | SQLITE_CONSTRAINT_UNIQUE | SQLITE_CONSTRAINT_FOREIGNKEY

datatype error = SqliteError sqlite_code string

type_synonym statement = "store \<Rightarrow> (error + int) \<times> store"

definition not_null_failed :: "string \<Rightarrow> error" where
  "not_null_failed column = SqliteError SQLITE_CONSTRAINT_NOTNULL column"

definition unique_failed :: "string \<Rightarrow> error" where
  "unique_failed column = SqliteError SQLITE_CONSTRAINT_UNIQUE column"

definition foreign_key_failed :: error where
  "foreign_key_failed = SqliteError SQLITE_CONSTRAINT_FOREIGNKEY ''''"

text \<open>\<open>INTEGER PRIMARY KEY AUTOINCREMENT\<close>: one more than every rowid the table has or had.\<close>

definition next_rowid :: "int \<Rightarrow> int list \<Rightarrow> int" where
  "next_rowid seq ids = max seq (fold max ids 0) + 1"

text \<open>A foreign key is checked only when enforcement is on; \<open>NULL\<close> references nothing.\<close>

definition references :: "store \<Rightarrow> int list \<Rightarrow> int option \<Rightarrow> bool" where
  "references s ids v =
     (case v of None \<Rightarrow> True | Some i \<Rightarrow> if foreign_keys s then i \<in> set ids else True)"

text \<open>
  \<open>INSERT INTO properties (name, address, type, rent_amount, status) VALUES (?, ?, ?, ?, ?)\<close>
\<close>

definition insert_properties ::
  "string option \<Rightarrow> string option \<Rightarrow> string option \<Rightarrow> real option \<Rightarrow> string option
     \<Rightarrow> statement" where
  "insert_properties name address type rent_amount status s =
     (if name = None then (Inl (not_null_failed ''properties.name''), s)
      else if address = None then (Inl (not_null_failed ''properties.address''), s)
      else if type = None then (Inl (not_null_failed ''properties.type''), s)
      else if rent_amount = None then (Inl (not_null_failed ''properties.rent_amount''), s)
      else
        let i = next_rowid (seq_properties s) (map pr_id (properties s));
            row = \<lparr>pr_id = i, pr_name = the name, pr_address = the address,
                   pr_type = the type, pr_rent_amount = the rent_amount, pr_status = status\<rparr>
        in (Inr i, s\<lparr>properties := properties s @ [row], seq_properties := i\<rparr>))"

text \<open>
  \<open>INSERT INTO tenants (first_name, last_name, email, phone, property_id) VALUES (?, ?, ?, ?, ?)\<close>;
  \<open>email\<close> is \<open>UNIQUE NOT NULL\<close>, \<open>property_id\<close> references \<open>properties(id)\<close>.
\<close>

definition insert_tenants ::
  "string option \<Rightarrow> string option \<Rightarrow> string option \<Rightarrow> string option \<Rightarrow> int option
     \<Rightarrow> statement" where
  "insert_tenants first_name last_name email phone property_id s =
     (if first_name = None then (Inl (not_null_failed ''tenants.first_name''), s)
      else if last_name = None then (Inl (not_null_failed ''tenants.last_name''), s)
      else if email = None then (Inl (not_null_failed ''tenants.email''), s)
      else if the email \<in> set (map tn_email (tenants s))
        then (Inl (unique_failed ''tenants.email''), s)
      else if \<not> references s (map pr_id (properties s)) property_id
        then (Inl foreign_key_failed, s)
      else
        let i = next_rowid (seq_tenants s) (map tn_id (tenants s));
            row = \<lparr>tn_id = i, tn_first_name = the first_name, tn_last_name = the last_name,
                   tn_email = the email, tn_phone = phone, tn_property_id = property_id\<rparr>
        in (Inr i, s\<lparr>tenants := tenants s @ [row], seq_tenants := i\<rparr>))"

text \<open>
  \<open>INSERT INTO leases (property_id, tenant_id, start_date, end_date, monthly_rent)
  VALUES (?, ?, ?, ?, ?)\<close>; \<open>status\<close> takes its default \<open>'Active'\<close>.
\<close>

definition insert_leases ::
  "int option \<Rightarrow> int option \<Rightarrow> string option \<Rightarrow> string option \<Rightarrow> real option
     \<Rightarrow> statement" where
  "insert_leases property_id tenant_id start_date end_date monthly_rent s =
     (if property_id = None then (Inl (not_null_failed ''leases.property_id''), s)
      else if tenant_id = None then (Inl (not_null_failed ''leases.tenant_id''), s)
      else if start_date = None then (Inl (not_null_failed ''leases.start_date''), s)
      else if end_date = None then (Inl (not_null_failed ''leases.end_date''), s)
      else if monthly_rent = None then (Inl (not_null_failed ''leases.monthly_rent''), s)
      else if \<not> (references s (map pr_id (properties s)) property_id
                \<and> references s (map tn_id (tenants s)) tenant_id)
        then (Inl foreign_key_failed, s)
      else
        let i = next_rowid (seq_leases s) (map ls_id (leases s));
            row = \<lparr>ls_id = i, ls_property_id = the property_id, ls_tenant_id = the tenant_id,
                   ls_start_date = the start_date, ls_end_date = the end_date,
                   ls_monthly_rent = the monthly_rent, ls_status = Some ''Active''\<rparr>
        in (Inr i, s\<lparr>leases := leases s @ [row], seq_leases := i\<rparr>))"

text \<open>
  \<open>INSERT INTO payments (lease_id, amount, payment_date) VALUES (?, ?, ?)\<close>; \<open>status\<close>
  takes its default \<open>'Paid'\<close>.
\<close>

definition insert_payments ::
  "int option \<Rightarrow> real option \<Rightarrow> string option \<Rightarrow> statement" where
  "insert_payments lease_id amount payment_date s =
     (if lease_id = None then (Inl (not_null_failed ''payments.lease_id''), s)
      else if amount = None then (Inl (not_null_failed ''payments.amount''), s)
      else if payment_date = None then (Inl (not_null_failed ''payments.payment_date''), s)
      else if \<not> references s (map ls_id (leases s)) lease_id
        then (Inl foreign_key_failed, s)
      else
        let i = next_rowid (seq_payments s) (map pm_id (payments s));
            row = \<lparr>pm_id = i, pm_lease_id = the lease_id, pm_amount = the amount,
                   pm_payment_date = the payment_date, pm_status = Some ''Paid''\<rparr>
        in (Inr i, s\<lparr>payments := payments s @ [row], seq_payments := i\<rparr>))"

text \<open>
  \<open>INSERT INTO maintenance (property_id, description, priority) VALUES (?, ?, ?)\<close>;
  \<open>status\<close> takes its default \<open>'Open'\<close> and \<open>created_at\<close> its default
  \<open>CURRENT_TIMESTAMP\<close>, the engine's clock at the insert, here the argument \<open>now\<close>. The
  bound \<open>priority\<close> is stored as it is, \<open>NULL\<close> included: the default \<open>'Medium'\<close> applies
  only to a statement that leaves the column out, and this one names it.
\<close>

definition insert_maintenance ::
  "string \<Rightarrow> int option \<Rightarrow> string option \<Rightarrow> string option \<Rightarrow> statement" where
  "insert_maintenance now property_id description priority s =
     (if property_id = None then (Inl (not_null_failed ''maintenance.property_id''), s)
      else if description = None then (Inl (not_null_failed ''maintenance.description''), s)
      else if \<not> references s (map pr_id (properties s)) property_id
        then (Inl foreign_key_failed, s)
      else
        let i = next_rowid (seq_maintenance s) (map mt_id (maintenance s));
            row = \<lparr>mt_id = i, mt_property_id = the property_id,
                   mt_description = the description, mt_priority = priority,
                   mt_status = Some ''Open'', mt_created_at = Some now\<rparr>
        in (Inr i, s\<lparr>maintenance := maintenance s @ [row], seq_maintenance := i\<rparr>))"

section \<open>Seeding\<close>

text \<open>
  The statements of the seed block, in the order of the source. Each one commits on its
  own; nothing catches an exception, so the first failure ends the block (and the process)
  and the rows inserted before it stay.
\<close>

definition seed_statements :: "statement list" where
  "seed_statements =
     [insert_properties (Some ''Sunset Apartments - Unit 101'')
        (Some ''123 Solar Way, Phoenix, AZ'') (Some ''Apartment'') (Some 1200) (Some ''Occupied''),
      insert_properties (Some ''Sunset Apartments - Unit 102'')
        (Some ''123 Solar Way, Phoenix, AZ'') (Some ''Apartment'') (Some 1250) (Some ''Available''),
      insert_properties (Some ''Oak Ridge House'')
        (Some ''456 Forest Dr, Portland, OR'') (Some ''Single Family'') (Some 2500)
        (Some ''Occupied''),
      insert_tenants (Some ''John'') (Some ''Doe'') (Some ''john@example.com'')
        (Some ''555-0101'') (Some 1),
      insert_tenants (Some ''Jane'') (Some ''Smith'') (Some ''jane@example.com'')
        (Some ''555-0202'') (Some 3),
      insert_leases (Some 1) (Some 1) (Some ''2024-01-01'') (Some ''2024-12-31'') (Some 1200),
      insert_leases (Some 3) (Some 2) (Some ''2024-02-01'') (Some ''2025-01-31'') (Some 2500),
      insert_payments (Some 1) (Some 1200) (Some ''2024-02-01''),
      insert_payments (Some 3) (Some 2500) (Some ''2024-02-05'')]"

fun run_statements :: "statement list \<Rightarrow> store \<Rightarrow> error option \<times> store" where
  "run_statements [] s = (None, s)"
| "run_statements (st # sts) s =
     (case st s of
        (Inl e, s') \<Rightarrow> (Some e, s')
      | (Inr _, s') \<Rightarrow> run_statements sts s')"

text \<open>\<open>SELECT COUNT(*) as count FROM properties\<close>\<close>

definition count_properties :: "store \<Rightarrow> nat" where
  "count_properties s = length (properties s)"

definition seedIfEmpty :: "store \<Rightarrow> error option \<times> store" where
  "seedIfEmpty s =
     (if count_properties s = 0 then run_statements seed_statements s else (None, s))"

text \<open>The database a first start leaves behind, whether or not the seed block got through.\<close>

definition seeded :: "bool \<Rightarrow> store" where
  "seeded fk = snd (seedIfEmpty (empty_store fk))"

section \<open>The numbers of the JavaScript side\<close>

text \<open>
  What a query result or an arithmetic expression of the handler can be: SQL's \<open>NULL\<close>
  (JavaScript's \<open>null\<close>), \<open>NaN\<close>, an infinity, or a finite number.
\<close>

datatype jsnum = Null | NaN | PosInfinity | NegInfinity | Num real

text \<open>\<open>a / b\<close> on finite numbers.\<close>

definition js_div :: "real \<Rightarrow> real \<Rightarrow> jsnum" where
  "js_div a b =
     (if b = 0 then (if a = 0 then NaN else if 0 < a then PosInfinity else NegInfinity)
      else Num (a / b))"

text \<open>\<open>x * 100\<close>\<close>

fun js_times_100 :: "jsnum \<Rightarrow> jsnum" where
  "js_times_100 (Num x) = Num (x * 100)"
| "js_times_100 Null = Num 0"
| "js_times_100 v = v"

text \<open>\<open>Math.round\<close>: the nearest integer, a tie going up.\<close>

fun Math_round :: "jsnum \<Rightarrow> jsnum" where
  "Math_round (Num x) = Num (of_int \<lfloor>x + 1 / 2\<rfloor>)"
| "Math_round Null = Num 0"
| "Math_round v = v"

text \<open>\<open>v || 0\<close>: \<open>null\<close>, \<open>NaN\<close> and zero are falsy.\<close>

fun or_zero :: "jsnum \<Rightarrow> jsnum" where
  "or_zero Null = Num 0"
| "or_zero NaN = Num 0"
| "or_zero (Num x) = (if x = 0 then Num 0 else Num x)"
| "or_zero v = v"

text \<open>\<open>SUM(column)\<close> is \<open>NULL\<close> over no rows.\<close>

definition sql_sum :: "real list \<Rightarrow> jsnum" where
  "sql_sum xs = (if xs = [] then Null else Num (sum_list xs))"

section \<open>The handlers\<close>

text \<open>
  A handler runs its statements on the database and answers; it is a function from the
  database to the response and the database after it. A field of a request body is the
  value bound to the statement, \<open>None\<close> for a JSON \<open>null\<close>; a body whose fields have
  other types than the columns they go to is not modelled. An exception of a statement is
  not caught by any handler, so the handler's result is the statement's.
\<close>

record stats =
  totalProperties :: nat
  occupancyRate :: jsnum
  totalRevenue :: jsnum
  openMaintenance :: nat

text \<open>\<open>SELECT COUNT(*) as count FROM properties WHERE status = 'Occupied'\<close>\<close>

definition count_occupied :: "store \<Rightarrow> nat" where
  "count_occupied s = length (filter (\<lambda>p. pr_status p = Some ''Occupied'') (properties s))"

text \<open>\<open>SELECT SUM(amount) as total FROM payments\<close>\<close>

definition sum_payments :: "store \<Rightarrow> jsnum" where
  "sum_payments s = sql_sum (map pm_amount (payments s))"

text \<open>\<open>SELECT COUNT(*) as count FROM maintenance WHERE status = 'Open'\<close>\<close>

definition count_open_maintenance :: "store \<Rightarrow> nat" where
  "count_open_maintenance s =
     length (filter (\<lambda>m. mt_status m = Some ''Open'') (maintenance s))"

text \<open>\<open>GET /api/stats\<close>\<close>

definition GetStats :: "store \<Rightarrow> stats \<times> store" where
  "GetStats s =
     (let totalProperties_count = count_properties s;
          occupiedProperties_count = count_occupied s;
          totalRevenue_total = sum_payments s;
          openMaintenance_count = count_open_maintenance s
      in (\<lparr>totalProperties = totalProperties_count,
           occupancyRate =
             or_zero (Math_round (js_times_100
               (js_div (real occupiedProperties_count) (real totalProperties_count)))),
           totalRevenue = or_zero totalRevenue_total,
           openMaintenance = openMaintenance_count\<rparr>, s))"

text \<open>\<open>GET /api/properties\<close>\<close>

definition ListProperties :: "store \<Rightarrow> property_row list \<times> store" where
  "ListProperties s = (properties s, s)"

text \<open>\<open>POST /api/properties\<close>: the statement names no \<open>status\<close>, which takes its default.\<close>

definition CreateProperty ::
  "string option \<Rightarrow> string option \<Rightarrow> string option \<Rightarrow> real option \<Rightarrow> statement" where
  "CreateProperty name address type rent_amount s =
     insert_properties name address type rent_amount (Some ''Available'') s"

text \<open>\<open>GET /api/tenants\<close>: \<open>t.*\<close> and \<open>p.name as property_name\<close>, over a left join.\<close>

record tenant_view = tenant_row +
  tv_property_name :: "string option"

definition tenant_with :: "tenant_row \<Rightarrow> string option \<Rightarrow> tenant_view" where
  "tenant_with t n =
     \<lparr>tn_id = tn_id t, tn_first_name = tn_first_name t, tn_last_name = tn_last_name t,
      tn_email = tn_email t, tn_phone = tn_phone t, tn_property_id = tn_property_id t,
      tv_property_name = n\<rparr>"

definition ListTenants :: "store \<Rightarrow> tenant_view list \<times> store" where
  "ListTenants s =
     (concat (map (\<lambda>t.
        let ps = filter (\<lambda>p. tn_property_id t = Some (pr_id p)) (properties s)
        in if ps = [] then [tenant_with t None]
           else map (\<lambda>p. tenant_with t (Some (pr_name p))) ps) (tenants s)), s)"

text \<open>
  \<open>ORDER BY key DESC\<close>: the rows by descending key, \<open>NULL\<close> last. Rows with equal keys are
  kept in the order the join produced them.
\<close>

definition order_by_desc :: "('a \<Rightarrow> 'k::linorder) \<Rightarrow> 'a list \<Rightarrow> 'a list" where
  "order_by_desc key rows = rev (sort_key key (rev rows))"

text \<open>
  \<open>GET /api/payments\<close>: \<open>p.*\<close>, \<open>t.first_name\<close>, \<open>t.last_name\<close> and
  \<open>prop.name as property_name\<close>, over three inner joins.
\<close>

record payment_view = payment_row +
  pv_first_name :: string
  pv_last_name :: string
  pv_property_name :: string

definition payment_with :: "payment_row \<Rightarrow> tenant_row \<Rightarrow> property_row \<Rightarrow> payment_view" where
  "payment_with p t prop =
     \<lparr>pm_id = pm_id p, pm_lease_id = pm_lease_id p, pm_amount = pm_amount p,
      pm_payment_date = pm_payment_date p, pm_status = pm_status p,
      pv_first_name = tn_first_name t, pv_last_name = tn_last_name t,
      pv_property_name = pr_name prop\<rparr>"

definition ListPayments :: "store \<Rightarrow> payment_view list \<times> store" where
  "ListPayments s =
     (order_by_desc pm_payment_date
        [payment_with p t prop.
           p \<leftarrow> payments s,
           l \<leftarrow> leases s, pm_lease_id p = ls_id l,
           t \<leftarrow> tenants s, ls_tenant_id l = tn_id t,
           prop \<leftarrow> properties s, ls_property_id l = pr_id prop], s)"

text \<open>\<open>GET /api/maintenance\<close>: \<open>m.*\<close> and \<open>p.name as property_name\<close>, over an inner join.\<close>

record maintenance_view = maintenance_row +
  mv_property_name :: string

definition maintenance_with :: "maintenance_row \<Rightarrow> property_row \<Rightarrow> maintenance_view" where
  "maintenance_with m p =
     \<lparr>mt_id = mt_id m, mt_property_id = mt_property_id m, mt_description = mt_description m,
      mt_priority = mt_priority m, mt_status = mt_status m, mt_created_at = mt_created_at m,
      mv_property_name = pr_name p\<rparr>"

definition ListMaintenance :: "store \<Rightarrow> maintenance_view list \<times> store" where
  "ListMaintenance s =
     (order_by_desc mt_created_at
        [maintenance_with m p.
           m \<leftarrow> maintenance s,
           p \<leftarrow> properties s, mt_property_id m = pr_id p], s)"

text \<open>\<open>POST /api/maintenance\<close>\<close>

definition CreateMaintenance ::
  "string \<Rightarrow> int option \<Rightarrow> string option \<Rightarrow> string option \<Rightarrow> statement" where
  "CreateMaintenance now property_id description priority s =
     insert_maintenance now property_id description priority s"

section \<open>Example databases\<close>


text \<open>The seeded database after one \<open>POST /api/properties\<close>, as a restart finds it.\<close>

definition with_fourth_property :: store where
  "with_fourth_property =
     snd (CreateProperty (Some ''Lake Cabin'') (Some ''1 Shore Rd'') (Some ''Cabin'') (Some 900)
            (seeded False))"

text \<open>No property, and one tenant who has none assigned.\<close>

definition orphan_tenant :: store where
  "orphan_tenant =
     (empty_store False)
       \<lparr>tenants :=
          [\<lparr>tn_id = 1, tn_first_name = ''John'', tn_last_name = ''Doe'',
            tn_email = ''john@example.com'', tn_phone = None, tn_property_id = None\<rparr>],
        seq_tenants := 1\<rparr>"

section \<open>Facts about the engine\<close>

lemma fold_max_lower: "a \<le> fold max ids (a::int)"
  by (induction ids arbitrary: a) (auto intro: order_trans [OF max.cobounded2])

lemma fold_max_upper: "i \<in> set ids \<Longrightarrow> i \<le> fold max ids (a::int)"
proof (induction ids arbitrary: a)
  case Nil
  then show ?case by simp
next
  case (Cons x xs)
  then show ?case
    by (auto intro: order_trans [OF max.cobounded1 fold_max_lower])
qed

lemma next_rowid_above: "i \<in> set ids \<Longrightarrow> i < next_rowid seq ids"
  using fold_max_upper [of i ids 0] by (simp add: next_rowid_def)

lemma next_rowid_fresh: "next_rowid seq ids \<notin> set ids"
  using next_rowid_above by blast

lemma next_rowid_fresh_image: "next_rowid seq (map f rows) \<notin> f ` set rows"
  using next_rowid_fresh [of seq "map f rows"] by simp

text \<open>The inserts keep the primary keys and the emails distinct.\<close>

lemma insert_properties_primary_key:
  "distinct (map pr_id (properties s)) \<Longrightarrow>
     distinct (map pr_id (properties (snd (insert_properties name address type rent status s))))"
  by (simp add: insert_properties_def Let_def next_rowid_fresh_image)

lemma insert_maintenance_primary_key:
  "distinct (map mt_id (maintenance s)) \<Longrightarrow>
     distinct (map mt_id (maintenance (snd (insert_maintenance now pid d prio s))))"
  by (simp add: insert_maintenance_def Let_def next_rowid_fresh_image)

lemma insert_tenants_unique_email:
  "distinct (map tn_email (tenants s)) \<Longrightarrow>
     distinct (map tn_email (tenants (snd (insert_tenants first_name last_name email phone pid s))))"
  by (auto simp: insert_tenants_def Let_def)

text \<open>A primary key finds at most one row.\<close>

lemma filter_key_distinct:
  "distinct (map f xs) \<Longrightarrow>
     filter (\<lambda>x. k = Some (f x)) xs =
       (case k of None \<Rightarrow> [] | Some i \<Rightarrow>
          (case find (\<lambda>x. f x = i) xs of None \<Rightarrow> [] | Some x \<Rightarrow> [x]))"
proof (induction xs)
  case Nil
  then show ?case by (simp split: option.splits)
next
  case (Cons x xs)
  then show ?case
    by (cases k) (auto simp: filter_empty_conv image_iff split: option.splits)
qed

lemma set_order_by_desc: "set (order_by_desc key rows) = set rows"
  by (simp add: order_by_desc_def)

lemma sorted_order_by_desc: "sorted (rev (map key (order_by_desc key rows)))"
  by (simp add: order_by_desc_def rev_map)


section \<open>The seeded database\<close>

text \<open>
  What the seed block leaves in an empty database. The last statement inserts a payment
  for lease 3, and the leases are 1 and 2: with foreign keys enforced the statement fails
  and the payment is missing, without enforcement the payment is stored with no lease.
\<close>

lemma seeded_tables:
  "properties (seeded fk) =
     [\<lparr>pr_id = 1, pr_name = ''Sunset Apartments - Unit 101'',
       pr_address = ''123 Solar Way, Phoenix, AZ'', pr_type = ''Apartment'',
       pr_rent_amount = 1200, pr_status = Some ''Occupied''\<rparr>,
      \<lparr>pr_id = 2, pr_name = ''Sunset Apartments - Unit 102'',
       pr_address = ''123 Solar Way, Phoenix, AZ'', pr_type = ''Apartment'',
       pr_rent_amount = 1250, pr_status = Some ''Available''\<rparr>,
      \<lparr>pr_id = 3, pr_name = ''Oak Ridge House'',
       pr_address = ''456 Forest Dr, Portland, OR'', pr_type = ''Single Family'',
       pr_rent_amount = 2500, pr_status = Some ''Occupied''\<rparr>]"
  "tenants (seeded fk) =
     [\<lparr>tn_id = 1, tn_first_name = ''John'', tn_last_name = ''Doe'',
       tn_email = ''john@example.com'', tn_phone = Some ''555-0101'',
       tn_property_id = Some 1\<rparr>,
      \<lparr>tn_id = 2, tn_first_name = ''Jane'', tn_last_name = ''Smith'',
       tn_email = ''jane@example.com'', tn_phone = Some ''555-0202'',
       tn_property_id = Some 3\<rparr>]"
  "leases (seeded fk) =
     [\<lparr>ls_id = 1, ls_property_id = 1, ls_tenant_id = 1, ls_start_date = ''2024-01-01'',
       ls_end_date = ''2024-12-31'', ls_monthly_rent = 1200, ls_status = Some ''Active''\<rparr>,
      \<lparr>ls_id = 2, ls_property_id = 3, ls_tenant_id = 2, ls_start_date = ''2024-02-01'',
       ls_end_date = ''2025-01-31'', ls_monthly_rent = 2500, ls_status = Some ''Active''\<rparr>]"
  "payments (seeded fk) =
     \<lparr>pm_id = 1, pm_lease_id = 1, pm_amount = 1200, pm_payment_date = ''2024-02-01'',
      pm_status = Some ''Paid''\<rparr> #
     (if fk then []
      else [\<lparr>pm_id = 2, pm_lease_id = 3, pm_amount = 2500, pm_payment_date = ''2024-02-05'',
             pm_status = Some ''Paid''\<rparr>])"
  "maintenance (seeded fk) = []"
  "foreign_keys (seeded fk) = fk"
  by (simp_all add: seeded_def seedIfEmpty_def count_properties_def empty_store_def
      seed_statements_def insert_properties_def insert_tenants_def insert_leases_def
      insert_payments_def next_rowid_def references_def Let_def)

lemma seed_result:
  "fst (seedIfEmpty (empty_store fk)) = (if fk then Some foreign_key_failed else None)"
  by (simp add: seedIfEmpty_def count_properties_def empty_store_def
      seed_statements_def insert_properties_def insert_tenants_def insert_leases_def
      insert_payments_def next_rowid_def references_def Let_def)

lemma seeded_payment_count: "length (payments (seeded fk)) = (if fk then 1 else 2)"
  by (simp add: seeded_tables)

section \<open>The payments listing\<close>

text \<open>
  The listing is the inner join: a row for every payment, lease, tenant and property that
  match, and nothing for a payment whose lease, or whose lease's tenant or property, is
  not there. The rows come by descending payment date.
\<close>

lemma ListPayments_inner_join:
  "v \<in> set (fst (ListPayments s)) \<longleftrightarrow>
     (\<exists>p \<in> set (payments s). \<exists>l \<in> set (leases s). \<exists>t \<in> set (tenants s).
        \<exists>prop \<in> set (properties s).
          pm_lease_id p = ls_id l \<and> ls_tenant_id l = tn_id t \<and> ls_property_id l = pr_id prop
          \<and> v = payment_with p t prop)"
  by (auto simp: ListPayments_def set_order_by_desc)

lemma ListPayments_descending: "sorted (rev (map pm_payment_date (fst (ListPayments s))))"
  by (simp add: ListPayments_def sorted_order_by_desc)

lemma ListPayments_excludes:
  assumes "\<forall>l \<in> set (leases s). ls_id l \<noteq> pm_lease_id p"
  shows "\<forall>v \<in> set (fst (ListPayments s)). pm_lease_id v \<noteq> pm_lease_id p"
  using assms by (auto simp: ListPayments_inner_join payment_with_def)

text \<open>
  C1. On the seed data the claim expects two rows from \<open>ListPayments\<close>, the payment of
  2024-02-05 (2500, Jane Smith, Oak Ridge House) before the payment of 2024-02-01 (1200,
  John Doe, Sunset Apartments - Unit 101). The listing of the seeded database is the
  second of them alone, with foreign keys enforced or not: the payment of 2024-02-05 was
  seeded for lease 3, which does not exist, so it is either rejected or dropped by the
  inner join.
\<close>

theorem ListPayments_seeded:
  "fst (ListPayments (seeded fk)) =
     [\<lparr>pm_id = 1, pm_lease_id = 1, pm_amount = 1200, pm_payment_date = ''2024-02-01'',
       pm_status = Some ''Paid'', pv_first_name = ''John'', pv_last_name = ''Doe'',
       pv_property_name = ''Sunset Apartments - Unit 101''\<rparr>]"
  by (simp add: ListPayments_def seeded_tables order_by_desc_def payment_with_def)

section \<open>The statistics\<close>

text \<open>
  C2. After seeding an empty database the claim expects the statistics 3 properties,
  occupancy 67, revenue 3700, no open maintenance. With foreign keys enforced the seed
  block ends in the foreign-key error of its last statement and the revenue is 1200;
  without enforcement the block runs through and the statistics are the expected ones.
\<close>

theorem GetStats_seeded:
  "fst (seedIfEmpty (empty_store True)) = Some foreign_key_failed
   \<and> fst (GetStats (seeded True)) =
       \<lparr>totalProperties = 3, occupancyRate = Num 67, totalRevenue = Num 1200,
        openMaintenance = 0\<rparr>
   \<and> fst (seedIfEmpty (empty_store False)) = None
   \<and> fst (GetStats (seeded False)) =
       \<lparr>totalProperties = 3, occupancyRate = Num 67, totalRevenue = Num 3700,
        openMaintenance = 0\<rparr>"
  by code_simp

text \<open>
  C3. In a database without properties \<open>GetStats\<close> answers an occupancy rate of exactly 0,
  whatever the other tables hold: the quotient 0 / 0 is \<open>NaN\<close>, which \<open>|| 0\<close> turns into 0.
\<close>

theorem occupancyRate_no_properties:
  "properties s = [] \<Longrightarrow> occupancyRate (fst (GetStats s)) = Num 0"
  by (simp add: GetStats_def Let_def count_properties_def count_occupied_def js_div_def)

theorem occupancyRate_no_properties_witness:
  "properties orphan_tenant = [] \<and> occupancyRate (fst (GetStats orphan_tenant)) = Num 0"
proof -
  have p: "properties orphan_tenant = []"
    by (simp add: orphan_tenant_def empty_store_def)
  from occupancyRate_no_properties [OF p] p show ?thesis by simp
qed





section \<open>Seeding twice\<close>

text \<open>
  C6, as stated: running the seed step against any database that already has a property
  leaves exactly 3 properties, 2 tenants, 2 leases, 2 payments and no maintenance rows.
  It does not: a restart of the seeded database after one \<open>POST /api/properties\<close> finds
  four properties and, the seed step being skipped, leaves four.
\<close>

theorem seedIfEmpty_counterexample:
  "count_properties with_fourth_property \<noteq> 0
   \<and> length (properties (snd (seedIfEmpty with_fourth_property))) = 4
   \<and> \<not> (length (properties (snd (seedIfEmpty with_fourth_property))) = 3
        \<and> length (tenants (snd (seedIfEmpty with_fourth_property))) = 2
        \<and> length (leases (snd (seedIfEmpty with_fourth_property))) = 2
        \<and> length (payments (snd (seedIfEmpty with_fourth_property))) = 2
        \<and> maintenance (snd (seedIfEmpty with_fourth_property)) = [])"
  by (simp add: with_fourth_property_def CreateProperty_def insert_properties_def
      seedIfEmpty_def count_properties_def seeded_tables Let_def)

text \<open>
  C6, amended. The seed step runs only when the property count is 0: on a database that
  already has a property it raises nothing and changes nothing. So running it a second
  time after it ran on an empty database inserts no row, and the database then holds
  exactly 3 properties, 2 tenants, 2 leases and no maintenance row.
\<close>

theorem seedIfEmpty_idempotent:
  "(properties s \<noteq> [] \<longrightarrow> seedIfEmpty s = (None, s))
   \<and> seedIfEmpty (seeded fk) = (None, seeded fk)
   \<and> length (properties (seeded fk)) = 3 \<and> length (tenants (seeded fk)) = 2
   \<and> length (leases (seeded fk)) = 2 \<and> maintenance (seeded fk) = []"
  by (simp add: seedIfEmpty_def count_properties_def seeded_tables)

theorem seedIfEmpty_idempotent_witness:
  "properties with_fourth_property \<noteq> []
   \<and> seedIfEmpty with_fourth_property = (None, with_fourth_property)"
proof -
  have "properties with_fourth_property \<noteq> []"
    by (simp add: with_fourth_property_def CreateProperty_def insert_properties_def Let_def)
  with seedIfEmpty_idempotent [of with_fourth_property] show ?thesis by blast
qed

section \<open>The tenants listing\<close>

text \<open>
  C7. \<open>ListTenants\<close> returns every tenant row once, in table order, with the name of the
  property its \<open>property_id\<close> refers to, and with no name (\<open>NULL\<close>) when the tenant has no
  property assigned or the property is not there; the property ids are a primary key. On
  the seed data it returns John Doe with Sunset Apartments - Unit 101 and Jane Smith with
  Oak Ridge House.
\<close>

theorem ListTenants_left_join:
  "(distinct (map pr_id (properties s)) \<longrightarrow>
      fst (ListTenants s) =
        map (\<lambda>t. tenant_with t
               (case tn_property_id t of None \<Rightarrow> None
                | Some i \<Rightarrow> map_option pr_name (find (\<lambda>p. pr_id p = i) (properties s))))
          (tenants s))
   \<and> fst (ListTenants (seeded fk)) =
       [\<lparr>tn_id = 1, tn_first_name = ''John'', tn_last_name = ''Doe'',
         tn_email = ''john@example.com'', tn_phone = Some ''555-0101'',
         tn_property_id = Some 1, tv_property_name = Some ''Sunset Apartments - Unit 101''\<rparr>,
        \<lparr>tn_id = 2, tn_first_name = ''Jane'', tn_last_name = ''Smith'',
         tn_email = ''jane@example.com'', tn_phone = Some ''555-0202'',
         tn_property_id = Some 3, tv_property_name = Some ''Oak Ridge House''\<rparr>]"
proof
  show "distinct (map pr_id (properties s)) \<longrightarrow>
      fst (ListTenants s) =
        map (\<lambda>t. tenant_with t
               (case tn_property_id t of None \<Rightarrow> None
                | Some i \<Rightarrow> map_option pr_name (find (\<lambda>p. pr_id p = i) (properties s))))
          (tenants s)"
  proof
    assume d: "distinct (map pr_id (properties s))"
    have "concat (map (\<lambda>t.
        let ps = filter (\<lambda>p. tn_property_id t = Some (pr_id p)) (properties s)
        in if ps = [] then [tenant_with t None]
           else map (\<lambda>p. tenant_with t (Some (pr_name p))) ps) ts) =
       map (\<lambda>t. tenant_with t
               (case tn_property_id t of None \<Rightarrow> None
                | Some i \<Rightarrow> map_option pr_name (find (\<lambda>p. pr_id p = i) (properties s)))) ts"
      for ts
      by (induction ts) (simp_all add: filter_key_distinct [OF d] Let_def split: option.splits)
    then show "fst (ListTenants s) =
        map (\<lambda>t. tenant_with t
               (case tn_property_id t of None \<Rightarrow> None
                | Some i \<Rightarrow> map_option pr_name (find (\<lambda>p. pr_id p = i) (properties s))))
          (tenants s)"
      by (simp add: ListTenants_def)
  qed
next
  show "fst (ListTenants (seeded fk)) =
       [\<lparr>tn_id = 1, tn_first_name = ''John'', tn_last_name = ''Doe'',
         tn_email = ''john@example.com'', tn_phone = Some ''555-0101'',
         tn_property_id = Some 1, tv_property_name = Some ''Sunset Apartments - Unit 101''\<rparr>,
        \<lparr>tn_id = 2, tn_first_name = ''Jane'', tn_last_name = ''Smith'',
         tn_email = ''jane@example.com'', tn_phone = Some ''555-0202'',
         tn_property_id = Some 3, tv_property_name = Some ''Oak Ridge House''\<rparr>]"
    by (simp add: ListTenants_def seeded_tables tenant_with_def)
qed

theorem ListTenants_left_join_witness:
  "distinct (map pr_id (properties orphan_tenant))
   \<and> fst (ListTenants orphan_tenant) =
       [\<lparr>tn_id = 1, tn_first_name = ''John'', tn_last_name = ''Doe'',
         tn_email = ''john@example.com'', tn_phone = None, tn_property_id = None,
         tv_property_name = None\<rparr>]"
proof -
  have d: "distinct (map pr_id (properties orphan_tenant))"
    by (simp add: orphan_tenant_def empty_store_def)
  with ListTenants_left_join [of orphan_tenant] show ?thesis
    by (simp add: orphan_tenant_def empty_store_def tenant_with_def)
qed

section \<open>Maintenance requests\<close>

text \<open>
  C8. \<open>CreateMaintenance\<close> with the id of an existing property, a description and a
  priority answers the id of the row it inserts, an id no earlier row has. The row has
  status \<open>'Open'\<close> and the current time as \<open>created_at\<close>, and \<open>ListMaintenance\<close>
  afterwards lists it with the name of that property; the listing is in descending order
  of \<open>created_at\<close>.
\<close>

theorem CreateMaintenance_then_ListMaintenance:
  assumes "p \<in> set (properties s)"
    and "CreateMaintenance now (Some (pr_id p)) (Some description) (Some priority) s = (r, s')"
  shows "r = Inr (next_rowid (seq_maintenance s) (map mt_id (maintenance s)))
    \<and> next_rowid (seq_maintenance s) (map mt_id (maintenance s)) \<notin> set (map mt_id (maintenance s))
    \<and> maintenance s' = maintenance s @
         [\<lparr>mt_id = next_rowid (seq_maintenance s) (map mt_id (maintenance s)),
           mt_property_id = pr_id p, mt_description = description,
           mt_priority = Some priority, mt_status = Some ''Open'',
           mt_created_at = Some now\<rparr>]
    \<and> \<lparr>mt_id = next_rowid (seq_maintenance s) (map mt_id (maintenance s)),
        mt_property_id = pr_id p, mt_description = description,
        mt_priority = Some priority, mt_status = Some ''Open'',
        mt_created_at = Some now, mv_property_name = pr_name p\<rparr>
      \<in> set (fst (ListMaintenance s'))
    \<and> sorted (rev (map mt_created_at (fst (ListMaintenance s'))))"
proof -
  let ?i = "next_rowid (seq_maintenance s) (map mt_id (maintenance s))"
  let ?row = "\<lparr>mt_id = ?i, mt_property_id = pr_id p, mt_description = description,
               mt_priority = Some priority, mt_status = Some ''Open'',
               mt_created_at = Some now\<rparr>"
  from assms(1) have ok: "references s (map pr_id (properties s)) (Some (pr_id p))"
    by (simp add: references_def)
  with assms(2) have r: "r = Inr ?i"
    and s': "s' = s\<lparr>maintenance := maintenance s @ [?row], seq_maintenance := ?i\<rparr>"
    by (auto simp: CreateMaintenance_def insert_maintenance_def Let_def)
  have fresh: "?i \<notin> set (map mt_id (maintenance s))"
    by (rule next_rowid_fresh)
  from s' have rows: "maintenance s' = maintenance s @ [?row]"
    and props: "properties s' = properties s"
    by simp_all
  from assms(1) have "maintenance_with ?row p \<in> set (fst (ListMaintenance s'))"
    by (auto simp: ListMaintenance_def set_order_by_desc rows props)
  then have listed: "\<lparr>mt_id = ?i, mt_property_id = pr_id p, mt_description = description,
        mt_priority = Some priority, mt_status = Some ''Open'',
        mt_created_at = Some now, mv_property_name = pr_name p\<rparr>
      \<in> set (fst (ListMaintenance s'))"
    by (simp add: maintenance_with_def)
  have "sorted (rev (map mt_created_at (fst (ListMaintenance s'))))"
    by (simp add: ListMaintenance_def sorted_order_by_desc)
  with r fresh rows listed show ?thesis by blast
qed

theorem CreateMaintenance_then_ListMaintenance_witness:
  "fst (CreateMaintenance ''2024-03-01 09:30:00'' (Some 3) (Some ''Leaking tap'') (Some ''High'')
          (seeded True)) = Inr 1
   \<and> fst (ListMaintenance (snd (CreateMaintenance ''2024-03-01 09:30:00'' (Some 3)
             (Some ''Leaking tap'') (Some ''High'') (seeded True)))) =
       [\<lparr>mt_id = 1, mt_property_id = 3, mt_description = ''Leaking tap'',
         mt_priority = Some ''High'', mt_status = Some ''Open'',
         mt_created_at = Some ''2024-03-01 09:30:00'',
         mv_property_name = ''Oak Ridge House''\<rparr>]"
proof -
  let ?p = "\<lparr>pr_id = 3, pr_name = ''Oak Ridge House'',
       pr_address = ''456 Forest Dr, Portland, OR'', pr_type = ''Single Family'',
       pr_rent_amount = 2500, pr_status = Some ''Occupied''\<rparr>"
  let ?c = "CreateMaintenance ''2024-03-01 09:30:00'' (Some 3) (Some ''Leaking tap'')
              (Some ''High'') (seeded True)"
  have p: "?p \<in> set (properties (seeded True))"
    by (simp add: seeded_tables)
  have c: "CreateMaintenance ''2024-03-01 09:30:00'' (Some (pr_id ?p)) (Some ''Leaking tap'')
             (Some ''High'') (seeded True) = (fst ?c, snd ?c)"
    by simp
  have i: "next_rowid (seq_maintenance (seeded True)) (map mt_id (maintenance (seeded True))) = 1"
    by code_simp
  have n: "length (fst (ListMaintenance (snd ?c))) = 1"
    by code_simp
  from CreateMaintenance_then_ListMaintenance [OF p c]
  have "fst ?c = Inr 1"
    and "\<lparr>mt_id = 1, mt_property_id = 3, mt_description = ''Leaking tap'',
         mt_priority = Some ''High'', mt_status = Some ''Open'',
         mt_created_at = Some ''2024-03-01 09:30:00'',
         mv_property_name = ''Oak Ridge House''\<rparr> \<in> set (fst (ListMaintenance (snd ?c)))"
    by (simp_all add: i)
  with n show ?thesis
    by (cases "fst (ListMaintenance (snd ?c))") auto
qed

section \<open>The unique email\<close>

text \<open>
  C9. Inserting a tenant with the email of an existing tenant fails with a constraint
  violation and leaves the database as it was: the violation of \<open>UNIQUE\<close> on
  \<open>tenants.email\<close>, unless a name is \<open>NULL\<close>, which is reported first. Nothing catches
  the error: the seed block, the one place that inserts tenants, ends with that very
  error when a tenant with the seed's first email is already stored, and has inserted no
  tenant.
\<close>

theorem insert_tenants_duplicate_email:
  "(email \<in> set (map tn_email (tenants s)) \<longrightarrow>
      snd (insert_tenants first_name last_name (Some email) phone property_id s) = s
      \<and> fst (insert_tenants first_name last_name (Some email) phone property_id s)
          \<in> {Inl (not_null_failed ''tenants.first_name''),
             Inl (not_null_failed ''tenants.last_name''),
             Inl (unique_failed ''tenants.email'')}
      \<and> (first_name \<noteq> None \<and> last_name \<noteq> None \<longrightarrow>
           fst (insert_tenants first_name last_name (Some email) phone property_id s) =
             Inl (unique_failed ''tenants.email'')))
   \<and> (properties s = [] \<and> ''john@example.com'' \<in> set (map tn_email (tenants s)) \<longrightarrow>
        fst (seedIfEmpty s) = Some (unique_failed ''tenants.email'')
        \<and> tenants (snd (seedIfEmpty s)) = tenants s)"
  by (simp add: insert_tenants_def seedIfEmpty_def count_properties_def seed_statements_def
      insert_properties_def Let_def)

theorem insert_tenants_duplicate_email_witness:
  "''john@example.com'' \<in> set (map tn_email (tenants orphan_tenant))
   \<and> properties orphan_tenant = []
   \<and> insert_tenants (Some ''Jon'') (Some ''Dough'') (Some ''john@example.com'') None None
        orphan_tenant = (Inl (unique_failed ''tenants.email''), orphan_tenant)
   \<and> fst (seedIfEmpty orphan_tenant) = Some (unique_failed ''tenants.email'')
   \<and> tenants (snd (seedIfEmpty orphan_tenant)) = tenants orphan_tenant"
proof -
  have e: "''john@example.com'' \<in> set (map tn_email (tenants orphan_tenant))"
    and p: "properties orphan_tenant = []"
    by (simp_all add: orphan_tenant_def empty_store_def)
  from insert_tenants_duplicate_email
    [of "''john@example.com''" orphan_tenant "Some ''Jon''" "Some ''Dough''" None None] e p
  show ?thesis
    by (simp add: prod_eq_iff)
qed

section \<open>Reading changes nothing\<close>

text \<open>
  C10. Each of the five read operations leaves the database exactly as it found it, and
  asked twice in a row it gives the same answer.
\<close>

theorem reads_leave_store:
  "snd (GetStats s) = s \<and> snd (ListProperties s) = s \<and> snd (ListTenants s) = s
   \<and> snd (ListPayments s) = s \<and> snd (ListMaintenance s) = s
   \<and> fst (GetStats (snd (GetStats s))) = fst (GetStats s)
   \<and> fst (ListProperties (snd (ListProperties s))) = fst (ListProperties s)
   \<and> fst (ListTenants (snd (ListTenants s))) = fst (ListTenants s)
   \<and> fst (ListPayments (snd (ListPayments s))) = fst (ListPayments s)
   \<and> fst (ListMaintenance (snd (ListMaintenance s))) = fst (ListMaintenance s)"
  by (simp add: GetStats_def Let_def ListProperties_def ListTenants_def ListPayments_def
      ListMaintenance_def)

end
